theory Spec2Isabelle
  imports Main "HOL-Library.AList"
begin

section \<open>JavaScript values\<close>

text \<open>
  The values that flow through \<^verbatim>\<open>proto.js\<close>: attribute values, the parsed body of a
  response, the primary key. \<open>Num\<close> stands for the integer-valued numbers whose decimal
  form JavaScript prints without an exponent; other numbers are outside this model. An
  object is the list of its own properties in insertion order, each key once.
\<close>

datatype jsval =
    Undefined
  | Null
  | Bool bool
  | Num int
  | Str string
  | Arr "jsval list"
  | Obj "(string \<times> jsval) list"

text \<open>Truthiness, as \<^verbatim>\<open>if (x)\<close> and \<^verbatim>\<open>x || y\<close> test it.\<close>

fun truthy :: "jsval \<Rightarrow> bool" where
  "truthy Undefined = False"
| "truthy Null = False"
| "truthy (Bool b) = b"
| "truthy (Num n) = (n \<noteq> 0)"
| "truthy (Str s) = (s \<noteq> [])"
| "truthy (Arr xs) = True"
| "truthy (Obj kvs) = True"

text \<open>\<^verbatim>\<open>null != x\<close>: loose inequality, false exactly for \<^verbatim>\<open>null\<close> and \<^verbatim>\<open>undefined\<close>.\<close>

fun null_neq :: "jsval \<Rightarrow> bool" where
  "null_neq Undefined = False"
| "null_neq Null = False"
| "null_neq v = True"

text \<open>Decimal digits of a number, as string concatenation prints them.\<close>

function show_nat :: "nat \<Rightarrow> string" where
  "show_nat n = (if n < 10 then [''0123456789'' ! n]
                 else show_nat (n div 10) @ [''0123456789'' ! (n mod 10)])"
  by pat_completeness auto
termination
  by (relation "measure id") auto

definition show_int :: "int \<Rightarrow> string" where
  "show_int i = (if i < 0 then CHR ''-'' # show_nat (nat (- i)) else show_nat (nat i))"

fun join :: "string \<Rightarrow> string list \<Rightarrow> string" where
  "join sep [] = []"
| "join sep [x] = x"
| "join sep (x # y # ys) = x @ sep @ join sep (y # ys)"

text \<open>
  The string a value becomes when \<^verbatim>\<open>+\<close> concatenates it to a string. An array prints
  its elements separated by commas, \<^verbatim>\<open>null\<close> and \<^verbatim>\<open>undefined\<close> elements as nothing.
\<close>

fun ToString :: "jsval \<Rightarrow> string" where
  "ToString Undefined = ''undefined''"
| "ToString Null = ''null''"
| "ToString (Bool b) = (if b then ''true'' else ''false'')"
| "ToString (Num n) = show_int n"
| "ToString (Str s) = s"
| "ToString (Arr xs) =
     join '','' (map (\<lambda>x. if x = Undefined \<or> x = Null then [] else ToString x) xs)"
| "ToString (Obj kvs) = ''[object Object]''"

text \<open>
  \<^verbatim>\<open>obj[key]\<close> on an object kept as a property list: a missing key reads \<^verbatim>\<open>undefined\<close>.
  Only own properties are looked up; names inherited from \<^verbatim>\<open>Object.prototype\<close> are not
  attribute names here.
\<close>

definition lookup :: "(string \<times> jsval) list \<Rightarrow> string \<Rightarrow> jsval" where
  "lookup al k = (case map_of al k of None \<Rightarrow> Undefined | Some v \<Rightarrow> v)"

text \<open>\<^verbatim>\<open>v.id\<close> for a truthy value \<open>v\<close>: only an object can own the property.\<close>

fun prop_id :: "jsval \<Rightarrow> jsval" where
  "prop_id (Obj kvs) = lookup kvs ''id''"
| "prop_id v = Undefined"

section \<open>The record, its schema and the outside world\<close>

record err_entry =
  attr :: string
  message :: string

text \<open>The state of one record: \<^verbatim>\<open>this.attrs\<close>, \<^verbatim>\<open>this.dirty\<close>, \<^verbatim>\<open>this.errors\<close>, \<^verbatim>\<open>this.destroyed\<close>.\<close>

record inst =
  attrs :: "(string \<times> jsval) list"
  dirty :: "(string \<times> jsval) list"
  errors :: "err_entry list"
  destroyed :: bool

text \<open>
  \<^verbatim>\<open>this.model\<close>, which is declared outside \<^verbatim>\<open>proto.js\<close>. A validator is a function
  supplied with the schema; the specification has it inspect the record and register
  zero or more errors. It is called with the record and answers by calling
  \<^verbatim>\<open>error(attr, msg)\<close> on it any number of times: it is kept as the function from the
  record it is handed to the list of those calls. \<open>model_url\<close> is what \<^verbatim>\<open>model.url()\<close>
  returns.
\<close>

record model =
  primaryKey :: string
  base :: string
  validators :: "(inst \<Rightarrow> (string \<times> string) list) list"
  model_url :: string

text \<open>
  Modelled from the spec: the \<^verbatim>\<open>json\<close> component, missing from the sources. The spec gives
  it as \<^verbatim>\<open>serialize(record) -> text\<close> and \<^verbatim>\<open>parse(text) -> value\<close>. \<^verbatim>\<open>JSON.parse\<close> throws
  on a text that is not JSON: that is the answer \<open>None\<close>.
\<close>

record env =
  JSON_stringify :: "jsval \<Rightarrow> string"
  JSON_parse :: "string \<Rightarrow> jsval option"

text \<open>
  What the transport delivers once the request has completed (\<^verbatim>\<open>readyState\<close> 4): the
  status, the \<^verbatim>\<open>Content-Type\<close> header (\<open>None\<close> when \<^verbatim>\<open>getResponseHeader\<close> returns
  \<^verbatim>\<open>null\<close>) and the text.
\<close>

record response =
  status :: nat
  contentType :: "string option"
  responseText :: string

text \<open>The request object handed to the completion handler, with the \<^verbatim>\<open>body\<close> set on it.\<close>

record XMLHttpRequest = response +
  body :: jsval

datatype js_error = Error string | TypeError string | SyntaxError string

text \<open>
  A completion callback: the caller's function, or the module's \<^verbatim>\<open>noop\<close>. The variable
  \<^verbatim>\<open>fn\<close> of an operation holds a \<open>callback option\<close>, \<open>None\<close> while it is \<^verbatim>\<open>undefined\<close>
  because the caller passed none.
\<close>

datatype callback = UserFn | Noop

text \<open>
  Everything an operation does to the outside, in order: a request sent, an event emitted
  (with the record as the listeners see it), a callback invoked (with its error argument,
  \<open>None\<close> for none or \<^verbatim>\<open>null\<close>, and the record as the callback sees it), an exception
  that left the handler of the response and reached the host uncaught.
\<close>

datatype effect =
    Sent string string string
  | Emitted string inst
  | Called callback "js_error option" inst
  | Uncaught js_error

record world =
  self :: inst
  trace :: "effect list"

definition emit :: "string \<Rightarrow> world \<Rightarrow> world" where
  "emit name w = w\<lparr>trace := trace w @ [Emitted name (self w)]\<rparr>"

text \<open>
  How a piece of code ends: normally, with the state it leaves (\<open>Inr\<close>), or by throwing,
  with the exception and the state at that moment (\<open>Inl\<close>).
\<close>

type_synonym outcome = "(js_error \<times> world) + world"

text \<open>\<^verbatim>\<open>fn(err)\<close>: calling a variable that holds \<^verbatim>\<open>undefined\<close> throws a \<^verbatim>\<open>TypeError\<close>.\<close>

definition call :: "callback option \<Rightarrow> js_error option \<Rightarrow> world \<Rightarrow> outcome" where
  "call fn err w =
     (case fn of
        None \<Rightarrow> Inl (TypeError ''fn is not a function'', w)
      | Some f \<Rightarrow> Inr (w\<lparr>trace := trace w @ [Called f err (self w)]\<rparr>))"

text \<open>\<^verbatim>\<open>fn = fn || noop\<close>\<close>

definition or_noop :: "callback option \<Rightarrow> callback option" where
  "or_noop fn = (case fn of None \<Rightarrow> Some Noop | Some f \<Rightarrow> Some f)"

text \<open>
  The end of the \<^verbatim>\<open>onreadystatechange\<close> handler: the request was sent long before, so an
  exception that leaves the handler has no caller to reach and is reported by the host.
\<close>

definition settle :: "outcome \<Rightarrow> world" where
  "settle out =
     (case out of
        Inr w' \<Rightarrow> w'
      | Inl (err, w') \<Rightarrow> w'\<lparr>trace := trace w' @ [Uncaught err]\<rparr>)"

text \<open>
  Modelled from the spec: the per-attribute accessor \<^verbatim>\<open>this[name]\<close>, generated by the
  schema outside \<^verbatim>\<open>proto.js\<close>. With no argument it reads the attribute from the store;
  with one it stores the value and marks the attribute dirty (the marker kept is the new
  value; only its presence is ever read).
\<close>

definition accessor_get :: "string \<Rightarrow> inst \<Rightarrow> jsval" where
  "accessor_get name r = lookup (attrs r) name"

definition accessor_set :: "string \<Rightarrow> jsval \<Rightarrow> inst \<Rightarrow> inst" where
  "accessor_set name val r =
     r\<lparr>dirty := AList.update name val (dirty r),
       attrs := AList.update name val (attrs r)\<rparr>"

section \<open>The operations of \<^verbatim>\<open>proto.js\<close>\<close>

definition error :: "string \<Rightarrow> string \<Rightarrow> inst \<Rightarrow> inst" where
  "error a msg r = r\<lparr>errors := errors r @ [\<lparr>attr = a, message = msg\<rparr>]\<rparr>"

definition get :: "inst \<Rightarrow> string \<Rightarrow> jsval" where
  "get r a = lookup (attrs r) a"

definition has :: "inst \<Rightarrow> string \<Rightarrow> bool" where
  "has r a = null_neq (lookup (attrs r) a)"

definition toJSON :: "inst \<Rightarrow> jsval" where
  "toJSON r = Obj (attrs r)"

definition isNew :: "model \<Rightarrow> inst \<Rightarrow> bool" where
  "isNew m r = (let key = primaryKey m in \<not> has r key)"

text \<open>\<^verbatim>\<open>primary()\<close> and \<^verbatim>\<open>primary(val)\<close>, told apart in the source by \<^verbatim>\<open>arguments.length\<close>.\<close>

definition primary :: "model \<Rightarrow> inst \<Rightarrow> jsval" where
  "primary m r = (let key = primaryKey m in accessor_get key r)"

definition primary_set :: "model \<Rightarrow> jsval \<Rightarrow> inst \<Rightarrow> inst" where
  "primary_set m val r = (let key = primaryKey m in accessor_set key val r)"

text \<open>
  \<^verbatim>\<open>validate\<close>: \<^verbatim>\<open>this.errors = []\<close>, then \<^verbatim>\<open>each\<close> validator is called with the record, in
  the order of \<^verbatim>\<open>model.validators\<close>; every \<^verbatim>\<open>error\<close> call it makes pushes one entry.
\<close>

definition run_validator :: "inst \<Rightarrow> (inst \<Rightarrow> (string \<times> string) list) \<Rightarrow> inst" where
  "run_validator r fn = foldl (\<lambda>r' (a, msg). error a msg r') r (fn r)"

definition validate :: "model \<Rightarrow> inst \<Rightarrow> inst" where
  "validate m r = (let fns = validators m in foldl run_validator (r\<lparr>errors := []\<rparr>) fns)"

text \<open>\<^verbatim>\<open>isValid\<close> returns the boolean and leaves the record validated.\<close>

definition isValid :: "model \<Rightarrow> inst \<Rightarrow> bool \<times> inst" where
  "isValid m r = (let r' = validate m r in (0 = length (errors r'), r'))"

text \<open>\<^verbatim>\<open>changed\<close>: the dirty object, or \<open>None\<close> for \<^verbatim>\<open>false\<close>.\<close>

definition changed :: "inst \<Rightarrow> (string \<times> jsval) list option" where
  "changed r = (let d = dirty r in if length (map fst d) \<noteq> 0 then Some d else None)"

text \<open>\<^verbatim>\<open>url()\<close> is \<open>url m r None\<close>, \<^verbatim>\<open>url(path)\<close> is \<open>url m r (Some path)\<close>.\<close>

definition url :: "model \<Rightarrow> inst \<Rightarrow> jsval option \<Rightarrow> string" where
  "url m r path =
     (let u = base m; id = primary m r
      in case path of
           None \<Rightarrow> u @ ''/'' @ ToString id
         | Some p \<Rightarrow> u @ ''/'' @ ToString id @ ''/'' @ ToString p)"

text \<open>
  \<^verbatim>\<open>request\<close>: serialise the record, send, and handle the completed response \<open>resp\<close>.
  The handler calls \<open>fn\<close> only in the branch \<^verbatim>\<open>2 == status\<close>; the other branch is empty.
  In that branch a response typed \<^verbatim>\<open>application/json\<close> is parsed first, and a text that
  does not parse ends the handler there, before \<open>fn\<close> is called.
\<close>

definition request ::
  "env \<Rightarrow> string \<Rightarrow> string \<Rightarrow> (js_error option \<Rightarrow> XMLHttpRequest \<Rightarrow> world \<Rightarrow> outcome) \<Rightarrow>
   response \<Rightarrow> world \<Rightarrow> world" where
  "request e method u fn resp w =
     (let json = JSON_stringify e (toJSON (self w));
          w1 = w\<lparr>trace := trace w @ [Sent method u json]\<rparr>;
          st = status resp div 100;
          type = takeWhile (\<lambda>c. c \<noteq> CHR '';'')
                   (case contentType resp of None \<Rightarrow> [] | Some h \<Rightarrow> h);
          is_json = (''application/json'' = type);
          req = \<lparr>status = status resp, contentType = contentType resp,
                 responseText = responseText resp, body = Undefined\<rparr>
      in if 2 = st
         then
           if is_json
           then (case JSON_parse e (responseText resp) of
                   None \<Rightarrow> settle (Inl (SyntaxError ''JSON.parse'', w1))
                 | Some v \<Rightarrow> settle (fn None (req\<lparr>body := v\<rparr>) w1))
           else settle (fn None req w1)
         else w1)"

definition destroy ::
  "model \<Rightarrow> env \<Rightarrow> callback option \<Rightarrow> response \<Rightarrow> world \<Rightarrow> outcome" where
  "destroy m e fn resp w =
     (if isNew m (self w) then call fn (Some (Error ''not saved'')) w
      else
        let u = url m (self w) None;
            fn' = or_noop fn
        in Inr (request e ''DELETE'' u
                  (\<lambda>err res w'.
                     if err \<noteq> None then call fn' err w'
                     else
                       let w1 = emit ''destroy'' w';
                           w2 = w1\<lparr>self := (self w1)\<lparr>destroyed := True\<rparr>\<rparr>
                       in call fn' None w2)
                  resp w))"

definition update ::
  "model \<Rightarrow> env \<Rightarrow> callback option \<Rightarrow> response \<Rightarrow> world \<Rightarrow> outcome" where
  "update m e fn resp w =
     (let u = url m (self w) None;
          fn' = or_noop fn;
          (valid, r1) = isValid m (self w);
          w1 = w\<lparr>self := r1\<rparr>
      in if \<not> valid then call fn' (Some (Error ''validation failed'')) w1
         else Inr (request e ''PUT'' u
                     (\<lambda>err res w'.
                        if err \<noteq> None then call fn' err w'
                        else
                          let w2 = w'\<lparr>self := (self w')\<lparr>dirty := []\<rparr>\<rparr>;
                              w3 = emit ''update'' w2
                          in call fn' None w3)
                     resp w1))"

definition save ::
  "model \<Rightarrow> env \<Rightarrow> callback option \<Rightarrow> response \<Rightarrow> world \<Rightarrow> outcome" where
  "save m e fn resp w =
     (if \<not> isNew m (self w) then update m e fn resp w
      else
        let u = model_url m;
            fn' = or_noop fn;
            (valid, r1) = isValid m (self w);
            w1 = w\<lparr>self := r1\<rparr>
        in if \<not> valid then call fn' (Some (Error ''validation failed'')) w1
           else Inr (request e ''POST'' u
                       (\<lambda>err res w'.
                          if err \<noteq> None then call fn' err w'
                          else
                            let w2 = (if truthy (body res)
                                      then w'\<lparr>self := primary_set m (prop_id (body res)) (self w')\<rparr>
                                      else w');
                                w3 = w2\<lparr>self := (self w2)\<lparr>dirty := []\<rparr>\<rparr>;
                                w4 = emit ''save'' w3
                            in call fn' None w4)
                       resp w1))"

section \<open>Responses the handler can read\<close>

text \<open>
  The response can be handed to the completion handler: its text parses whenever its
  \<^verbatim>\<open>Content-Type\<close>, up to the first semicolon, is \<^verbatim>\<open>application/json\<close>.
\<close>

definition parseable :: "env \<Rightarrow> response \<Rightarrow> bool" where
  "parseable e resp =
     (''application/json'' =
        takeWhile (\<lambda>c. c \<noteq> CHR '';'') (case contentType resp of None \<Rightarrow> [] | Some h \<Rightarrow> h)
      \<longrightarrow> JSON_parse e (responseText resp) \<noteq> None)"

section \<open>The validation run, as the specification words it\<close>

text \<open>
  The specification's account of \<^verbatim>\<open>validate\<close>, to be compared with the definition taken
  from the source: starting from an empty error sequence, the validators are invoked one
  after the other in registration order, each on the record as its predecessors left it,
  and whatever a validator registers is appended; nothing stops the run.
\<close>

definition mk_entry :: "string \<times> string \<Rightarrow> err_entry" where
  "mk_entry p = \<lparr>attr = fst p, message = snd p\<rparr>"

primrec run_in_order :: "(inst \<Rightarrow> (string \<times> string) list) list \<Rightarrow> inst \<Rightarrow> inst" where
  "run_in_order [] r = r"
| "run_in_order (v # vs) r = run_in_order vs (r\<lparr>errors := errors r @ map mk_entry (v r)\<rparr>)"

section \<open>Example data\<close>

text \<open>A schema with one validator, which requires the attribute \<^verbatim>\<open>name\<close>.\<close>

definition users :: model where
  "users = \<lparr>primaryKey = ''id'', base = ''/users'',
     validators = [\<lambda>r. if has r ''name'' then [] else [(''name'', ''is required'')]],
     model_url = ''/users''\<rparr>"

text \<open>The same schema with two validators that both fail on every record.\<close>

definition strict_users :: model where
  "strict_users = users\<lparr>validators :=
     [\<lambda>r. [(''name'', ''is too short'')], \<lambda>r. [(''email'', ''is required'')]]\<rparr>"

text \<open>
  A JSON codec that knows the texts of the examples and rejects every other text, as
  \<^verbatim>\<open>JSON.parse\<close> rejects the empty text.
\<close>

definition example_json :: env where
  \<open>example_json =
     \<lparr>JSON_stringify =
        (\<lambda>v. if v = Obj [(''id'', Num 5), (''name'', Str ''b'')] then ''{"id":5,"name":"b"}''
             else if v = Obj [(''name'', Str ''a'')] then ''{"name":"a"}''
             else ''{}''),
      JSON_parse = (\<lambda>s. if s = ''{"id":5}'' then Some (Obj [(''id'', Num 5)]) else None)\<rparr>\<close>

text \<open>A record that was saved before and has a local change, and one that never was.\<close>

definition persisted :: inst where
  "persisted = \<lparr>attrs = [(''id'', Num 5), (''name'', Str ''b'')],
     dirty = [(''name'', Str ''b'')], errors = [], destroyed = False\<rparr>"

definition fresh :: inst where
  "fresh = \<lparr>attrs = [(''name'', Str ''a'')],
     dirty = [(''name'', Str ''a'')], errors = [], destroyed = False\<rparr>"

text \<open>A saved record whose name was set to \<^verbatim>\<open>null\<close>, with an error left by an earlier run.\<close>

definition nameless :: inst where
  "nameless = \<lparr>attrs = [(''id'', Num 5), (''name'', Null)],
     dirty = [(''name'', Null)],
     errors = [\<lparr>attr = ''id'', message = ''stale''\<rparr>], destroyed = False\<rparr>"

definition server_error :: response where
  "server_error = \<lparr>status = 500, contentType = None, responseText = []\<rparr>"

definition ok :: response where
  "ok = \<lparr>status = 200, contentType = None, responseText = []\<rparr>"

definition created :: response where
  \<open>created = \<lparr>status = 201, contentType = Some ''application/json; charset=utf-8'',
     responseText = ''{"id":5}''\<rparr>\<close>

definition no_content :: response where
  "no_content = \<lparr>status = 204, contentType = None, responseText = []\<rparr>"

text \<open>A 2xx answer that announces JSON and carries none.\<close>

definition garbled :: response where
  "garbled = \<lparr>status = 200, contentType = Some ''application/json'', responseText = []\<rparr>"

text \<open>The saved record after a first successful \<^verbatim>\<open>destroy\<close>.\<close>

definition gone :: inst where
  "gone = \<lparr>attrs = [(''id'', Num 5), (''name'', Str ''b'')],
     dirty = [(''name'', Str ''b'')], errors = [], destroyed = True\<rparr>"

section \<open>Validation\<close>

lemma foldl_error:
  "foldl (\<lambda>r' (a, msg). error a msg r') r xs = r\<lparr>errors := errors r @ map mk_entry xs\<rparr>"
  by (induction xs arbitrary: r) (auto simp: error_def mk_entry_def)

lemma run_validator_eq: "run_validator r v = r\<lparr>errors := errors r @ map mk_entry (v r)\<rparr>"
  by (simp add: run_validator_def foldl_error)

lemma foldl_run_validator: "foldl run_validator r vs = run_in_order vs r"
  by (induction vs arbitrary: r) (simp_all add: run_validator_eq)

lemma validate_run_in_order: "validate m r = run_in_order (validators m) (r\<lparr>errors := []\<rparr>)"
  by (simp add: validate_def foldl_run_validator)

lemma run_in_order_frame:
  "attrs (run_in_order vs r) = attrs r \<and> dirty (run_in_order vs r) = dirty r
   \<and> destroyed (run_in_order vs r) = destroyed r"
  by (induction vs arbitrary: r) simp_all

lemma validate_frame:
  "attrs (validate m r) = attrs r" "dirty (validate m r) = dirty r"
  "destroyed (validate m r) = destroyed r"
  by (simp_all add: validate_run_in_order run_in_order_frame)

lemma run_in_order_pure:
  assumes "\<forall>v\<in>set vs. \<forall>x. v x = v (x\<lparr>errors := []\<rparr>)"
  shows "errors (run_in_order vs r) =
         errors r @ concat (map (\<lambda>v. map mk_entry (v (r\<lparr>errors := []\<rparr>))) vs)"
  using assms
proof (induction vs arbitrary: r)
  case Nil
  then show ?case by simp
next
  case (Cons v vs)
  have head: "v r = v (r\<lparr>errors := []\<rparr>)"
    using Cons.prems by simp
  have rest: "\<forall>v\<in>set vs. \<forall>x. v x = v (x\<lparr>errors := []\<rparr>)"
    using Cons.prems by simp
  show ?case
    using Cons.IH [OF rest, of "r\<lparr>errors := errors r @ map mk_entry (v r)\<rparr>"] head
    by simp
qed

lemma isValid_eq: "isValid m r = (errors (validate m r) = [], validate m r)"
  by (auto simp add: isValid_def Let_def)

text \<open>
  C6. \<^verbatim>\<open>validate()\<close> resets \<^verbatim>\<open>errors\<close> and then runs every registered validator in
  registration order without halting on a failure: it is the run the specification
  describes, started from the empty error sequence. For validators that do not read
  \<^verbatim>\<open>errors\<close>, the result is the concatenation, in registration order, of what each one
  registers; and two validators that register one error each leave exactly those two
  errors, the first validator's first, whatever \<^verbatim>\<open>errors\<close> held before.
\<close>

theorem validate_runs_every_validator_in_order:
  "validate m r = run_in_order (validators m) (r\<lparr>errors := []\<rparr>)
   \<and> ((\<forall>v\<in>set (validators m). \<forall>x. v x = v (x\<lparr>errors := []\<rparr>)) \<longrightarrow>
        errors (validate m r) =
          concat (map (\<lambda>v. map mk_entry (v (r\<lparr>errors := []\<rparr>))) (validators m)))
   \<and> (validators m = [v1, v2] \<and> (\<forall>x. v1 x = [(a1, t1)]) \<and> (\<forall>x. v2 x = [(a2, t2)]) \<longrightarrow>
        errors (validate m r) = [\<lparr>attr = a1, message = t1\<rparr>, \<lparr>attr = a2, message = t2\<rparr>])"
proof (intro conjI impI)
  show "validate m r = run_in_order (validators m) (r\<lparr>errors := []\<rparr>)"
    by (rule validate_run_in_order)
next
  assume "\<forall>v\<in>set (validators m). \<forall>x. v x = v (x\<lparr>errors := []\<rparr>)"
  from run_in_order_pure [OF this, of "r\<lparr>errors := []\<rparr>"]
  show "errors (validate m r) =
          concat (map (\<lambda>v. map mk_entry (v (r\<lparr>errors := []\<rparr>))) (validators m))"
    by (simp add: validate_run_in_order)
next
  assume "validators m = [v1, v2] \<and> (\<forall>x. v1 x = [(a1, t1)]) \<and> (\<forall>x. v2 x = [(a2, t2)])"
  then show "errors (validate m r) = [\<lparr>attr = a1, message = t1\<rparr>, \<lparr>attr = a2, message = t2\<rparr>]"
    by (simp add: validate_run_in_order mk_entry_def)
qed

theorem validate_runs_every_validator_in_order_witness:
  "validators strict_users =
     [\<lambda>r. [(''name'', ''is too short'')], \<lambda>r. [(''email'', ''is required'')]]
   \<and> errors nameless = [\<lparr>attr = ''id'', message = ''stale''\<rparr>]
   \<and> errors (validate strict_users nameless) =
       [\<lparr>attr = ''name'', message = ''is too short''\<rparr>,
        \<lparr>attr = ''email'', message = ''is required''\<rparr>]"
  using validate_runs_every_validator_in_order
    [where m = strict_users and r = nameless
       and ?v1.0 = "\<lambda>r. [(''name'', ''is too short'')]" and ?a1.0 = "''name''"
       and ?t1.0 = "''is too short''"
       and ?v2.0 = "\<lambda>r. [(''email'', ''is required'')]" and ?a2.0 = "''email''"
       and ?t2.0 = "''is required''"]
  by (simp add: strict_users_def nameless_def mk_entry_def)

section \<open>New records and resource addresses\<close>

text \<open>
  C3. In every state of a record, \<^verbatim>\<open>isNew()\<close> is true exactly when the attribute named by
  the schema's primary key reads \<^verbatim>\<open>null\<close> or \<^verbatim>\<open>undefined\<close> in \<^verbatim>\<open>attrs\<close>.
\<close>

theorem isNew_iff_primary_key_absent:
  "isNew m r \<longleftrightarrow> (get r (primaryKey m) = Null \<or> get r (primaryKey m) = Undefined)"
  by (cases "lookup (attrs r) (primaryKey m)") (simp_all add: isNew_def has_def get_def)

theorem isNew_iff_primary_key_absent_witness:
  "isNew users fresh \<and> get fresh (primaryKey users) = Undefined
   \<and> \<not> isNew users persisted \<and> get persisted (primaryKey users) = Num 5"
  using isNew_iff_primary_key_absent [of users fresh]
    isNew_iff_primary_key_absent [of users persisted]
  by (simp add: users_def fresh_def persisted_def get_def lookup_def)

text \<open>
  C9. For a record whose primary key is present, \<^verbatim>\<open>url()\<close> is the base path, a slash and
  the primary key value, and \<^verbatim>\<open>url(suffix)\<close> appends a slash and the suffix to that.
\<close>

theorem url_of_persisted_record:
  assumes "\<not> isNew m r"
  shows "url m r None = base m @ ''/'' @ ToString (get r (primaryKey m))
       \<and> url m r (Some (Str suffix)) =
           base m @ ''/'' @ ToString (get r (primaryKey m)) @ ''/'' @ suffix"
  by (simp add: url_def primary_def accessor_get_def get_def)

theorem url_of_persisted_record_witness:
  "\<not> isNew users persisted
   \<and> url users persisted None = ''/users/5''
   \<and> url users persisted (Some (Str ''edit'')) = ''/users/5/edit''"
proof -
  have present: "\<not> isNew users persisted"
    by (simp add: isNew_def has_def users_def persisted_def lookup_def)
  show ?thesis
    using present url_of_persisted_record [OF present, of "''edit''"]
    by (simp add: users_def persisted_def get_def lookup_def show_int_def)
qed

section \<open>Requests\<close>

lemma request_not_2xx:
  "status resp div 100 \<noteq> 2 \<Longrightarrow>
   request e method u fn resp w =
     w\<lparr>trace := trace w @ [Sent method u (JSON_stringify e (toJSON (self w)))]\<rparr>"
  by (simp add: request_def Let_def)

lemma request_unparseable:
  assumes "status resp div 100 = 2" and "\<not> parseable e resp"
  shows "request e method u fn resp w =
     w\<lparr>trace := trace w @ [Sent method u (JSON_stringify e (toJSON (self w))),
                            Uncaught (SyntaxError ''JSON.parse'')]\<rparr>"
  using assms by (auto simp add: request_def parseable_def Let_def settle_def)

text \<open>The body the handler finds on the request object when the response is parseable.\<close>

lemma request_parseable:
  assumes "status resp div 100 = 2" and "parseable e resp"
  shows "request e method u fn resp w =
     settle (fn None
       \<lparr>status = status resp, contentType = contentType resp,
        responseText = responseText resp,
        body = (if ''application/json'' =
                     takeWhile (\<lambda>c. c \<noteq> CHR '';'')
                       (case contentType resp of None \<Rightarrow> [] | Some h \<Rightarrow> h)
                then (case JSON_parse e (responseText resp) of
                        None \<Rightarrow> Undefined | Some v \<Rightarrow> v)
                else Undefined)\<rparr>
       (w\<lparr>trace := trace w @ [Sent method u (JSON_stringify e (toJSON (self w)))]\<rparr>))"
  using assms by (auto simp add: request_def parseable_def Let_def)

lemma or_noop_cases: "or_noop fn = Some (case fn of None \<Rightarrow> Noop | Some f \<Rightarrow> f)"
  by (simp add: or_noop_def split: option.splits)

lemma save_persisted: "\<not> isNew m (self w) \<Longrightarrow> save m e fn resp w = update m e fn resp w"
  by (simp add: save_def)

lemma update_success:
  assumes "fst (isValid m (self w))" and "status resp div 100 = 2" and "parseable e resp"
  shows "update m e fn resp w =
     Inr (w\<lparr>self := (validate m (self w))\<lparr>dirty := []\<rparr>,
            trace := trace w @
              [Sent ''PUT'' (url m (self w) None)
                 (JSON_stringify e (toJSON (validate m (self w)))),
               Emitted ''update'' ((validate m (self w))\<lparr>dirty := []\<rparr>),
               Called (case fn of None \<Rightarrow> Noop | Some f \<Rightarrow> f) None
                 ((validate m (self w))\<lparr>dirty := []\<rparr>)]\<rparr>)"
  using assms(1)
  by (simp add: update_def request_parseable [OF assms(2,3)] Let_def call_def emit_def
      isValid_eq or_noop_cases settle_def)

lemma save_new_success:
  assumes "isNew m (self w)" and "fst (isValid m (self w))" and "status resp div 100 = 2"
    and "parseable e resp"
  shows "save m e fn resp w =
     (let r1 = validate m (self w);
          b = (if ''application/json'' =
                   takeWhile (\<lambda>c. c \<noteq> CHR '';'')
                     (case contentType resp of None \<Rightarrow> [] | Some h \<Rightarrow> h)
               then (case JSON_parse e (responseText resp) of
                       None \<Rightarrow> Undefined | Some v \<Rightarrow> v)
               else Undefined);
          r2 = (if truthy b then primary_set m (prop_id b) r1 else r1)
      in Inr (w\<lparr>self := r2\<lparr>dirty := []\<rparr>,
            trace := trace w @
              [Sent ''POST'' (model_url m) (JSON_stringify e (toJSON r1)),
               Emitted ''save'' (r2\<lparr>dirty := []\<rparr>),
               Called (case fn of None \<Rightarrow> Noop | Some f \<Rightarrow> f) None (r2\<lparr>dirty := []\<rparr>)]\<rparr>))"
  using assms(1,2)
  by (simp add: save_def request_parseable [OF assms(3,4)] Let_def call_def emit_def
      isValid_eq or_noop_cases settle_def)

lemma destroy_success:
  assumes "\<not> isNew m (self w)" and "status resp div 100 = 2" and "parseable e resp"
  shows "destroy m e fn resp w =
     Inr (w\<lparr>self := (self w)\<lparr>destroyed := True\<rparr>,
            trace := trace w @
              [Sent ''DELETE'' (url m (self w) None) (JSON_stringify e (toJSON (self w))),
               Emitted ''destroy'' (self w),
               Called (case fn of None \<Rightarrow> Noop | Some f \<Rightarrow> f) None
                 ((self w)\<lparr>destroyed := True\<rparr>)]\<rparr>)"
  using assms(1)
  by (simp add: destroy_def request_parseable [OF assms(2,3)] Let_def call_def emit_def
      or_noop_cases settle_def)

lemma update_invalid:
  assumes "\<not> fst (isValid m (self w))"
  shows "update m e fn resp w =
     Inr (w\<lparr>self := validate m (self w),
            trace := trace w @
              [Called (case fn of None \<Rightarrow> Noop | Some f \<Rightarrow> f)
                 (Some (Error ''validation failed'')) (validate m (self w))]\<rparr>)"
  using assms by (simp add: update_def Let_def call_def isValid_eq or_noop_cases)

lemma save_new_invalid:
  assumes "isNew m (self w)" and "\<not> fst (isValid m (self w))"
  shows "save m e fn resp w =
     Inr (w\<lparr>self := validate m (self w),
            trace := trace w @
              [Called (case fn of None \<Rightarrow> Noop | Some f \<Rightarrow> f)
                 (Some (Error ''validation failed'')) (validate m (self w))]\<rparr>)"
  using assms by (simp add: save_def Let_def call_def isValid_eq or_noop_cases)

lemma update_failure:
  assumes "\<not> fst (isValid m (self w)) \<or> status resp div 100 \<noteq> 2"
  shows "\<exists>t. update m e fn resp w =
           Inr (w\<lparr>self := validate m (self w), trace := trace w @ [t]\<rparr>)"
  using assms
  by (auto simp add: update_def request_not_2xx Let_def call_def isValid_eq or_noop_cases)

lemma save_new_failure:
  assumes "isNew m (self w)" and "\<not> fst (isValid m (self w)) \<or> status resp div 100 \<noteq> 2"
  shows "\<exists>t. save m e fn resp w =
           Inr (w\<lparr>self := validate m (self w), trace := trace w @ [t]\<rparr>)"
  using assms
  by (auto simp add: save_def request_not_2xx Let_def call_def isValid_eq or_noop_cases)

text \<open>
  With no callback passed, whatever \<^verbatim>\<open>update\<close> and \<^verbatim>\<open>save\<close> add to the trace invokes
  nothing but the no-op, and no call of an undefined \<^verbatim>\<open>fn\<close> is reported by the host.
\<close>

lemma update_without_callback:
  "\<exists>w' added. update m e None resp w = Inr w' \<and> trace w' = trace w @ added
     \<and> (\<forall>f err r. Called f err r \<in> set added \<longrightarrow> f = Noop)
     \<and> (\<forall>x. Uncaught (TypeError x) \<notin> set added)"
proof (cases "fst (isValid m (self w))")
  case False
  show ?thesis by (simp add: update_invalid [OF False])
next
  case valid: True
  show ?thesis
  proof (cases "status resp div 100 = 2")
    case False
    with valid show ?thesis
      by (simp add: update_def request_not_2xx Let_def isValid_eq)
  next
    case success: True
    show ?thesis
    proof (cases "parseable e resp")
      case True
      show ?thesis by (simp add: update_success [OF valid success True])
    next
      case False
      with valid show ?thesis
        by (simp add: update_def request_unparseable [OF success False] Let_def isValid_eq)
    qed
  qed
qed

lemma save_without_callback:
  "\<exists>w' added. save m e None resp w = Inr w' \<and> trace w' = trace w @ added
     \<and> (\<forall>f err r. Called f err r \<in> set added \<longrightarrow> f = Noop)
     \<and> (\<forall>x. Uncaught (TypeError x) \<notin> set added)"
proof (cases "isNew m (self w)")
  case False
  then show ?thesis using update_without_callback [of m e resp w] by (simp add: save_persisted)
next
  case new: True
  show ?thesis
  proof (cases "fst (isValid m (self w))")
    case False
    show ?thesis by (simp add: save_new_invalid [OF new False])
  next
    case valid: True
    show ?thesis
    proof (cases "status resp div 100 = 2")
      case False
      with new valid show ?thesis
        by (simp add: save_def request_not_2xx Let_def isValid_eq)
    next
      case success: True
      show ?thesis
      proof (cases "parseable e resp")
        case True
        show ?thesis by (simp add: save_new_success [OF new valid success True] Let_def)
      next
        case False
        with new valid show ?thesis
          by (simp add: save_def request_unparseable [OF success False] Let_def isValid_eq)
      qed
    qed
  qed
qed

lemma users_valid: "has r ''name'' \<Longrightarrow> validate users r = r\<lparr>errors := []\<rparr>"
  by (simp add: validate_def users_def run_validator_def has_def)

lemma persisted_facts:
  "\<not> isNew users persisted" "validate users persisted = persisted" "errors persisted = []"
  "url users persisted None = ''/users/5''"
  \<open>JSON_stringify example_json (toJSON persisted) = ''{"id":5,"name":"b"}''\<close>
proof -
  show "\<not> isNew users persisted"
    by (simp add: isNew_def has_def users_def persisted_def lookup_def)
  show "validate users persisted = persisted"
    by (simp add: users_valid has_def persisted_def lookup_def)
  show "errors persisted = []"
    by (simp add: persisted_def)
  show "url users persisted None = ''/users/5''"
    by (simp add: url_def primary_def accessor_get_def users_def persisted_def lookup_def
        show_int_def)
  show \<open>JSON_stringify example_json (toJSON persisted) = ''{"id":5,"name":"b"}''\<close>
    by (simp add: example_json_def toJSON_def persisted_def)
qed

lemma fresh_facts:
  "isNew users fresh" "validate users fresh = fresh" "errors fresh = []"
  \<open>JSON_stringify example_json (toJSON fresh) = ''{"name":"a"}''\<close>
proof -
  show "isNew users fresh"
    by (simp add: isNew_def has_def users_def fresh_def lookup_def)
  show "validate users fresh = fresh"
    by (simp add: users_valid has_def fresh_def lookup_def)
  show "errors fresh = []"
    by (simp add: fresh_def)
  show \<open>JSON_stringify example_json (toJSON fresh) = ''{"name":"a"}''\<close>
    by (simp add: example_json_def toJSON_def fresh_def)
qed

lemma gone_facts:
  "\<not> isNew users gone" "destroyed gone" "url users gone None = ''/users/5''"
  \<open>JSON_stringify example_json (toJSON gone) = ''{"id":5,"name":"b"}''\<close>
proof -
  show "\<not> isNew users gone"
    by (simp add: isNew_def has_def users_def gone_def lookup_def)
  show "destroyed gone"
    by (simp add: gone_def)
  show "url users gone None = ''/users/5''"
    by (simp add: url_def primary_def accessor_get_def users_def gone_def lookup_def
        show_int_def)
  show \<open>JSON_stringify example_json (toJSON gone) = ''{"id":5,"name":"b"}''\<close>
    by (simp add: example_json_def toJSON_def gone_def)
qed

lemma response_facts:
  "status server_error div 100 \<noteq> 2" "status ok div 100 = 2" "status created div 100 = 2"
  "status no_content div 100 = 2" "status garbled div 100 = 2"
  "parseable example_json ok" "parseable example_json created"
  "parseable example_json no_content" "\<not> parseable example_json garbled"
  by (simp_all add: server_error_def ok_def created_def no_content_def garbled_def
      parseable_def example_json_def)

section \<open>Saving and updating\<close>

text \<open>
  C4, as the code has it. When the record is valid, so that the request is issued, the
  transport answers with a 2xx status, and the text of an answer typed
  \<^verbatim>\<open>application/json\<close> parses, \<^verbatim>\<open>save\<close> and \<^verbatim>\<open>update\<close> complete with the whole dirty set
  cleared: \<^verbatim>\<open>changed()\<close> returns \<^verbatim>\<open>false\<close>, for any earlier dirty set and any parsed body,
  and the completion callback, invoked last with no error, already sees the record so.
\<close>

theorem successful_save_update_clears_dirty:
  assumes "fst (isValid m (self w))" and "status resp div 100 = 2" and "parseable e resp"
  shows "(\<exists>w' f. save m e fn resp w = Inr w' \<and> dirty (self w') = []
            \<and> changed (self w') = None
            \<and> or_noop fn = Some f \<and> last (trace w') = Called f None (self w'))
       \<and> (\<exists>w' f. update m e fn resp w = Inr w' \<and> dirty (self w') = []
            \<and> changed (self w') = None
            \<and> or_noop fn = Some f \<and> last (trace w') = Called f None (self w'))"
proof
  show upd: "\<exists>w' f. update m e fn resp w = Inr w' \<and> dirty (self w') = []
               \<and> changed (self w') = None
               \<and> or_noop fn = Some f \<and> last (trace w') = Called f None (self w')"
    by (simp add: update_success [OF assms] changed_def or_noop_cases)
  show "\<exists>w' f. save m e fn resp w = Inr w' \<and> dirty (self w') = []
            \<and> changed (self w') = None
            \<and> or_noop fn = Some f \<and> last (trace w') = Called f None (self w')"
  proof (cases "isNew m (self w)")
    case True
    show ?thesis
      by (simp add: save_new_success [OF True assms] Let_def changed_def or_noop_cases)
  next
    case False
    then show ?thesis using upd by (simp add: save_persisted)
  qed
qed

theorem successful_save_update_clears_dirty_witness:
  "fst (isValid users (self \<lparr>self = fresh, trace = []\<rparr>))
   \<and> status created div 100 = 2
   \<and> parseable example_json created
   \<and> changed fresh = Some [(''name'', Str ''a'')]
   \<and> (\<exists>w'. save users example_json (Some UserFn) created \<lparr>self = fresh, trace = []\<rparr> = Inr w'
          \<and> dirty (self w') = [] \<and> changed (self w') = None
          \<and> last (trace w') = Called UserFn None (self w'))
   \<and> (\<exists>w'. update users example_json (Some UserFn) created \<lparr>self = fresh, trace = []\<rparr> = Inr w'
          \<and> dirty (self w') = [] \<and> changed (self w') = None
          \<and> last (trace w') = Called UserFn None (self w'))"
proof -
  have valid: "fst (isValid users (self \<lparr>self = fresh, trace = []\<rparr>))"
    by (simp add: isValid_eq fresh_facts)
  have success: "status created div 100 = 2" and readable: "parseable example_json created"
    by (simp_all add: response_facts)
  have before: "changed fresh = Some [(''name'', Str ''a'')]"
    by (simp add: changed_def fresh_def)
  show ?thesis
    using valid success readable before
      successful_save_update_clears_dirty [OF valid success readable,
        where fn = "Some UserFn"]
    by (simp add: or_noop_def)
qed

text \<open>
  C4, as it is worded, fails on a 2xx answer typed \<^verbatim>\<open>application/json\<close> whose text does
  not parse: the handler ends in \<^verbatim>\<open>JSON.parse\<close>, the dirty set stays as it was and the
  callback is never invoked, for \<^verbatim>\<open>update\<close>, for \<^verbatim>\<open>save\<close> of a saved record and for
  \<^verbatim>\<open>save\<close> of a new one.
\<close>

theorem unparseable_2xx_leaves_dirty_counterexample:
  \<open>status garbled div 100 = 2
   \<and> fst (isValid users persisted) \<and> fst (isValid users fresh)
   \<and> update users example_json (Some UserFn) garbled \<lparr>self = persisted, trace = []\<rparr> =
       Inr \<lparr>self = persisted,
            trace = [Sent ''PUT'' ''/users/5'' ''{"id":5,"name":"b"}'',
                     Uncaught (SyntaxError ''JSON.parse'')]\<rparr>
   \<and> save users example_json (Some UserFn) garbled \<lparr>self = persisted, trace = []\<rparr> =
       Inr \<lparr>self = persisted,
            trace = [Sent ''PUT'' ''/users/5'' ''{"id":5,"name":"b"}'',
                     Uncaught (SyntaxError ''JSON.parse'')]\<rparr>
   \<and> save users example_json (Some UserFn) garbled \<lparr>self = fresh, trace = []\<rparr> =
       Inr \<lparr>self = fresh,
            trace = [Sent ''POST'' ''/users'' ''{"name":"a"}'',
                     Uncaught (SyntaxError ''JSON.parse'')]\<rparr>
   \<and> changed persisted = Some [(''name'', Str ''b'')]
   \<and> changed fresh = Some [(''name'', Str ''a'')]\<close>
proof (intro conjI)
  note broken = request_unparseable [OF response_facts(5) response_facts(9)]
  show "status garbled div 100 = 2"
    by (rule response_facts)
  show "fst (isValid users persisted)"
    by (simp add: isValid_eq persisted_facts)
  show "fst (isValid users fresh)"
    by (simp add: isValid_eq fresh_facts)
  show upd: \<open>update users example_json (Some UserFn) garbled \<lparr>self = persisted, trace = []\<rparr> =
       Inr \<lparr>self = persisted,
            trace = [Sent ''PUT'' ''/users/5'' ''{"id":5,"name":"b"}'',
                     Uncaught (SyntaxError ''JSON.parse'')]\<rparr>\<close>
    by (simp add: update_def Let_def isValid_eq persisted_facts broken)
  show \<open>save users example_json (Some UserFn) garbled \<lparr>self = persisted, trace = []\<rparr> =
       Inr \<lparr>self = persisted,
            trace = [Sent ''PUT'' ''/users/5'' ''{"id":5,"name":"b"}'',
                     Uncaught (SyntaxError ''JSON.parse'')]\<rparr>\<close>
    using upd by (simp add: save_def persisted_facts)
  show \<open>save users example_json (Some UserFn) garbled \<lparr>self = fresh, trace = []\<rparr> =
       Inr \<lparr>self = fresh,
            trace = [Sent ''POST'' ''/users'' ''{"name":"a"}'',
                     Uncaught (SyntaxError ''JSON.parse'')]\<rparr>\<close>
    by (simp add: save_def Let_def isValid_eq fresh_facts broken) (simp add: users_def)
  show "changed persisted = Some [(''name'', Str ''b'')]"
    by (simp add: changed_def persisted_def)
  show "changed fresh = Some [(''name'', Str ''a'')]"
    by (simp add: changed_def fresh_def)
qed

text \<open>
  C5. When \<^verbatim>\<open>save\<close> or \<^verbatim>\<open>update\<close> fails, because validation fails or because the transport
  does not answer with a 2xx status, the dirty set after the call is the dirty set
  before it: the same dirty object, hence the same set of attribute names.
\<close>

theorem failed_save_update_keeps_dirty:
  assumes "\<not> fst (isValid m (self w)) \<or> status resp div 100 \<noteq> 2"
  shows "(\<exists>w'. save m e fn resp w = Inr w' \<and> dirty (self w') = dirty (self w)
            \<and> set (map fst (dirty (self w'))) = set (map fst (dirty (self w))))
       \<and> (\<exists>w'. update m e fn resp w = Inr w' \<and> dirty (self w') = dirty (self w)
            \<and> set (map fst (dirty (self w'))) = set (map fst (dirty (self w))))"
proof
  show upd: "\<exists>w'. update m e fn resp w = Inr w' \<and> dirty (self w') = dirty (self w)
            \<and> set (map fst (dirty (self w'))) = set (map fst (dirty (self w)))"
    using update_failure [OF assms, of e fn] by (auto simp add: validate_frame)
  show "\<exists>w'. save m e fn resp w = Inr w' \<and> dirty (self w') = dirty (self w)
            \<and> set (map fst (dirty (self w'))) = set (map fst (dirty (self w)))"
  proof (cases "isNew m (self w)")
    case True
    then show ?thesis
      using save_new_failure [OF True assms, of e fn] by (auto simp add: validate_frame)
  next
    case False
    then show ?thesis using upd by (simp add: save_persisted)
  qed
qed

theorem failed_save_update_keeps_dirty_witness:
  "\<not> fst (isValid users (self \<lparr>self = nameless, trace = []\<rparr>))
   \<and> status server_error div 100 \<noteq> 2
   \<and> (\<exists>w'. save users example_json (Some UserFn) ok \<lparr>self = nameless, trace = []\<rparr> = Inr w'
          \<and> dirty (self w') = [(''name'', Null)])
   \<and> (\<exists>w'. save users example_json (Some UserFn) server_error \<lparr>self = fresh, trace = []\<rparr>
            = Inr w'
          \<and> dirty (self w') = [(''name'', Str ''a'')])"
proof -
  have invalid: "\<not> fst (isValid users (self \<lparr>self = nameless, trace = []\<rparr>))"
    by (simp add: isValid_eq validate_def users_def run_validator_def has_def nameless_def
        lookup_def error_def)
  have failed: "status server_error div 100 \<noteq> 2"
    by (simp add: server_error_def)
  show ?thesis
    using invalid failed
      failed_save_update_keeps_dirty [where m = users and w = "\<lparr>self = nameless, trace = []\<rparr>"
        and resp = ok and e = example_json and fn = "Some UserFn"]
      failed_save_update_keeps_dirty [where m = users and w = "\<lparr>self = fresh, trace = []\<rparr>"
        and resp = server_error and e = example_json and fn = "Some UserFn"]
    by (auto simp add: nameless_def fresh_def)
qed

text \<open>
  C1. The claim: a \<^verbatim>\<open>save\<close>, \<^verbatim>\<open>update\<close> or \<^verbatim>\<open>destroy\<close> whose request is answered with a
  non-2xx status invokes the completion callback exactly once with an error and leaves
  the primary key and the dirty set alone. The code at status 500: the request is sent
  and nothing else happens. The record is indeed untouched, but the callback is never
  invoked, for a saved record, for a new one, and for \<^verbatim>\<open>destroy\<close>.
\<close>

theorem non_2xx_response_never_reaches_callback:
  \<open>save users example_json (Some UserFn) server_error \<lparr>self = persisted, trace = []\<rparr> =
     Inr \<lparr>self = persisted, trace = [Sent ''PUT'' ''/users/5'' ''{"id":5,"name":"b"}'']\<rparr>
   \<and> save users example_json (Some UserFn) server_error \<lparr>self = fresh, trace = []\<rparr> =
     Inr \<lparr>self = fresh, trace = [Sent ''POST'' ''/users'' ''{"name":"a"}'']\<rparr>
   \<and> destroy users example_json (Some UserFn) server_error \<lparr>self = persisted, trace = []\<rparr> =
     Inr \<lparr>self = persisted, trace = [Sent ''DELETE'' ''/users/5'' ''{"id":5,"name":"b"}'']\<rparr>\<close>
proof (intro conjI)
  have failed: "status server_error div 100 \<noteq> 2"
    by (simp add: server_error_def)
  have old: "\<not> isNew users persisted"
    by (simp add: isNew_def has_def users_def persisted_def lookup_def)
  have new: "isNew users fresh"
    by (simp add: isNew_def has_def users_def fresh_def lookup_def)
  have valid_old: "validate users persisted = persisted"
    by (simp add: users_valid has_def persisted_def lookup_def)
  have valid_new: "validate users fresh = fresh"
    by (simp add: users_valid has_def fresh_def lookup_def)
  have clean: "errors persisted = []" "errors fresh = []"
    by (simp_all add: persisted_def fresh_def)
  have address: "url users persisted None = ''/users/5''"
    by (simp add: url_def primary_def accessor_get_def users_def persisted_def lookup_def
        show_int_def)
  have text_old: \<open>JSON_stringify example_json (toJSON persisted) = ''{"id":5,"name":"b"}''\<close>
    by (simp add: example_json_def toJSON_def persisted_def)
  have text_new: \<open>JSON_stringify example_json (toJSON fresh) = ''{"name":"a"}''\<close>
    by (simp add: example_json_def toJSON_def fresh_def)
  show \<open>save users example_json (Some UserFn) server_error \<lparr>self = persisted, trace = []\<rparr> =
     Inr \<lparr>self = persisted, trace = [Sent ''PUT'' ''/users/5'' ''{"id":5,"name":"b"}'']\<rparr>\<close>
    using old
    by (simp add: save_def update_def Let_def isValid_eq valid_old clean address text_old
        request_not_2xx [OF failed])
  show \<open>save users example_json (Some UserFn) server_error \<lparr>self = fresh, trace = []\<rparr> =
     Inr \<lparr>self = fresh, trace = [Sent ''POST'' ''/users'' ''{"name":"a"}'']\<rparr>\<close>
    using new
    by (simp add: save_def Let_def isValid_eq valid_new clean text_new
        request_not_2xx [OF failed])
      (simp add: users_def)
  show \<open>destroy users example_json (Some UserFn) server_error \<lparr>self = persisted, trace = []\<rparr> =
     Inr \<lparr>self = persisted, trace = [Sent ''DELETE'' ''/users/5'' ''{"id":5,"name":"b"}'']\<rparr>\<close>
    using old
    by (simp add: destroy_def Let_def address text_old request_not_2xx [OF failed])
qed

text \<open>
  C2. The claim: a successful \<^verbatim>\<open>save\<close> of a record that is not new emits a \<^verbatim>\<open>save\<close> event
  besides the \<^verbatim>\<open>update\<close> event. The code at status 200: \<^verbatim>\<open>save\<close> hands over to
  \<^verbatim>\<open>update\<close>, which emits \<^verbatim>\<open>update\<close> and calls back; no \<^verbatim>\<open>save\<close> event is emitted.
\<close>

theorem save_of_persisted_record_emits_update_only:
  \<open>save users example_json (Some UserFn) ok \<lparr>self = persisted, trace = []\<rparr> =
     Inr \<lparr>self = persisted\<lparr>dirty := []\<rparr>,
          trace = [Sent ''PUT'' ''/users/5'' ''{"id":5,"name":"b"}'',
                   Emitted ''update'' (persisted\<lparr>dirty := []\<rparr>),
                   Called UserFn None (persisted\<lparr>dirty := []\<rparr>)]\<rparr>\<close>
proof -
  have old: "\<not> isNew users (self \<lparr>self = persisted, trace = []\<rparr>)"
    by (simp add: isNew_def has_def users_def persisted_def lookup_def)
  have valid_old: "validate users persisted = persisted"
    by (simp add: users_valid has_def persisted_def lookup_def)
  have valid: "fst (isValid users (self \<lparr>self = persisted, trace = []\<rparr>))"
    by (simp add: isValid_eq valid_old) (simp add: persisted_def)
  have success: "status ok div 100 = 2"
    by (simp add: ok_def)
  have address: "url users persisted None = ''/users/5''"
    by (simp add: url_def primary_def accessor_get_def users_def persisted_def lookup_def
        show_int_def)
  have text_old: \<open>JSON_stringify example_json (toJSON persisted) = ''{"id":5,"name":"b"}''\<close>
    by (simp add: example_json_def toJSON_def persisted_def)
  show ?thesis
    by (simp add: save_persisted [OF old] update_success [OF valid success response_facts(6)]
        valid_old address text_old)
qed

section \<open>Destroying\<close>

text \<open>
  C7. On a new record, \<^verbatim>\<open>destroy(cb)\<close> does one thing: it invokes \<^verbatim>\<open>cb\<close> once, with the
  error \<^verbatim>\<open>not saved\<close>. No request is sent and the record is left as it was.
\<close>

theorem destroy_new_record_refused:
  assumes "isNew m (self w)"
  shows "destroy m e (Some f) resp w =
           Inr (w\<lparr>trace := trace w @ [Called f (Some (Error ''not saved'')) (self w)]\<rparr>)"
  using assms by (simp add: destroy_def call_def)

theorem destroy_new_record_refused_witness:
  "isNew users (self \<lparr>self = fresh, trace = []\<rparr>)
   \<and> destroy users example_json (Some UserFn) no_content \<lparr>self = fresh, trace = []\<rparr> =
       Inr \<lparr>self = fresh, trace = [Called UserFn (Some (Error ''not saved'')) fresh]\<rparr>"
proof -
  have new: "isNew users (self \<lparr>self = fresh, trace = []\<rparr>)"
    by (simp add: isNew_def has_def users_def fresh_def lookup_def)
  show ?thesis
    using new destroy_new_record_refused [OF new, where e = example_json and f = UserFn
      and resp = no_content]
    by simp
qed

text \<open>
  C8, as the code has it. On a record that is not new and was not destroyed before, when
  the transport answers the \<^verbatim>\<open>DELETE\<close> with a 2xx status and the text of an answer typed
  \<^verbatim>\<open>application/json\<close> parses, the effects after the request are, in this order: the
  \<^verbatim>\<open>destroy\<close> event, whose listeners see the record as it was before the call, with
  \<^verbatim>\<open>destroyed\<close> still false; then \<^verbatim>\<open>destroyed\<close> becomes true; then the callback is invoked
  with no error and sees the flag set.
\<close>

theorem destroy_success_order:
  assumes "\<not> isNew m (self w)" and "status resp div 100 = 2" and "parseable e resp"
    and "\<not> destroyed (self w)"
  shows "\<exists>w' seen f. destroy m e fn resp w = Inr w'
           \<and> or_noop fn = Some f
           \<and> trace w' = trace w @
               [Sent ''DELETE'' (url m (self w) None) (JSON_stringify e (toJSON (self w))),
                Emitted ''destroy'' seen,
                Called f None (self w')]
           \<and> seen = self w \<and> \<not> destroyed seen
           \<and> self w' = (self w)\<lparr>destroyed := True\<rparr> \<and> destroyed (self w')"
  using assms(4) by (simp add: destroy_success [OF assms(1,2,3)] or_noop_cases)

theorem destroy_success_order_witness:
  \<open>\<not> isNew users (self \<lparr>self = persisted, trace = []\<rparr>)
   \<and> status no_content div 100 = 2
   \<and> parseable example_json no_content
   \<and> \<not> destroyed (self \<lparr>self = persisted, trace = []\<rparr>)
   \<and> (\<exists>w'. destroy users example_json (Some UserFn) no_content \<lparr>self = persisted, trace = []\<rparr>
            = Inr w'
          \<and> trace w' =
              [Sent ''DELETE'' ''/users/5'' ''{"id":5,"name":"b"}'',
               Emitted ''destroy'' persisted,
               Called UserFn None (persisted\<lparr>destroyed := True\<rparr>)]
          \<and> destroyed (self w'))\<close>
proof -
  have old: "\<not> isNew users (self \<lparr>self = persisted, trace = []\<rparr>)"
    by (simp add: persisted_facts)
  have success: "status no_content div 100 = 2" and readable: "parseable example_json no_content"
    by (simp_all add: response_facts)
  have live: "\<not> destroyed (self \<lparr>self = persisted, trace = []\<rparr>)"
    by (simp add: persisted_def)
  show ?thesis
    using old success readable live
      destroy_success_order [OF old success readable live, where fn = "Some UserFn"]
    by (auto simp add: persisted_facts or_noop_def)
qed

text \<open>
  C8, as it is worded, fails in two places. A saved record that was destroyed before is
  still not new, and a second \<^verbatim>\<open>destroy\<close> answered 2xx emits the event to listeners that
  see \<^verbatim>\<open>destroyed\<close> already true. And on a 2xx answer typed \<^verbatim>\<open>application/json\<close> whose
  text does not parse, the handler ends in \<^verbatim>\<open>JSON.parse\<close>: no event, no flag, no callback.
\<close>

theorem destroy_event_order_counterexample:
  \<open>\<not> isNew users gone \<and> \<not> isNew users persisted
   \<and> status no_content div 100 = 2 \<and> status garbled div 100 = 2
   \<and> destroy users example_json (Some UserFn) no_content \<lparr>self = gone, trace = []\<rparr> =
       Inr \<lparr>self = gone,
            trace = [Sent ''DELETE'' ''/users/5'' ''{"id":5,"name":"b"}'',
                     Emitted ''destroy'' gone,
                     Called UserFn None gone]\<rparr>
   \<and> destroyed gone
   \<and> destroy users example_json (Some UserFn) garbled \<lparr>self = persisted, trace = []\<rparr> =
       Inr \<lparr>self = persisted,
            trace = [Sent ''DELETE'' ''/users/5'' ''{"id":5,"name":"b"}'',
                     Uncaught (SyntaxError ''JSON.parse'')]\<rparr>
   \<and> \<not> destroyed persisted\<close>
proof (intro conjI)
  show "\<not> isNew users gone" and "\<not> isNew users persisted"
    by (simp_all add: gone_facts persisted_facts)
  show "status no_content div 100 = 2" and "status garbled div 100 = 2"
    by (simp_all add: response_facts)
  have again: "\<not> isNew users (self \<lparr>self = gone, trace = []\<rparr>)"
    by (simp add: gone_facts)
  have same: "gone\<lparr>destroyed := True\<rparr> = gone"
    by (simp add: gone_def)
  show \<open>destroy users example_json (Some UserFn) no_content \<lparr>self = gone, trace = []\<rparr> =
       Inr \<lparr>self = gone,
            trace = [Sent ''DELETE'' ''/users/5'' ''{"id":5,"name":"b"}'',
                     Emitted ''destroy'' gone,
                     Called UserFn None gone]\<rparr>\<close>
    by (simp add: destroy_success [OF again response_facts(4) response_facts(8)]
        gone_facts same)
  show "destroyed gone"
    by (rule gone_facts)
  show \<open>destroy users example_json (Some UserFn) garbled \<lparr>self = persisted, trace = []\<rparr> =
       Inr \<lparr>self = persisted,
            trace = [Sent ''DELETE'' ''/users/5'' ''{"id":5,"name":"b"}'',
                     Uncaught (SyntaxError ''JSON.parse'')]\<rparr>\<close>
    by (simp add: destroy_def Let_def persisted_facts
        request_unparseable [OF response_facts(5) response_facts(9)])
  show "\<not> destroyed persisted"
    by (simp add: persisted_def)
qed

text \<open>
  C10. On a new record, \<^verbatim>\<open>destroy\<close> called without a callback throws at once, before
  anything is sent: the guard calls \<^verbatim>\<open>fn\<close> while it is still undefined. \<^verbatim>\<open>save\<close> and
  \<^verbatim>\<open>update\<close> called without a callback put the no-op in its place before they call it:
  on any record and any response they return normally, every call they make is a call
  of the no-op, and no call of an undefined \<^verbatim>\<open>fn\<close> reaches the host from the handler
  either. Where validation fails, the call that \<^verbatim>\<open>destroy\<close>'s guard would have thrown on
  is made, of the no-op, with the validation error.
\<close>

theorem destroy_without_callback_throws:
  assumes "isNew m (self w)"
  shows "destroy m e None resp w = Inl (TypeError ''fn is not a function'', w)
       \<and> (\<exists>w' added. save m e None resp2 w2 = Inr w' \<and> trace w' = trace w2 @ added
            \<and> (\<forall>f err r. Called f err r \<in> set added \<longrightarrow> f = Noop)
            \<and> (\<forall>x. Uncaught (TypeError x) \<notin> set added)
            \<and> (\<not> fst (isValid m (self w2)) \<longrightarrow>
                 added = [Called Noop (Some (Error ''validation failed'')) (self w')]))
       \<and> (\<exists>w' added. update m e None resp3 w3 = Inr w' \<and> trace w' = trace w3 @ added
            \<and> (\<forall>f err r. Called f err r \<in> set added \<longrightarrow> f = Noop)
            \<and> (\<forall>x. Uncaught (TypeError x) \<notin> set added)
            \<and> (\<not> fst (isValid m (self w3)) \<longrightarrow>
                 added = [Called Noop (Some (Error ''validation failed'')) (self w')]))"
proof (intro conjI)
  show "destroy m e None resp w = Inl (TypeError ''fn is not a function'', w)"
    using assms by (simp add: destroy_def call_def)
  show "\<exists>w' added. update m e None resp3 w3 = Inr w' \<and> trace w' = trace w3 @ added
            \<and> (\<forall>f err r. Called f err r \<in> set added \<longrightarrow> f = Noop)
            \<and> (\<forall>x. Uncaught (TypeError x) \<notin> set added)
            \<and> (\<not> fst (isValid m (self w3)) \<longrightarrow>
                 added = [Called Noop (Some (Error ''validation failed'')) (self w')])"
  proof (cases "fst (isValid m (self w3))")
    case True
    then show ?thesis using update_without_callback [of m e resp3 w3] by auto
  next
    case False
    show ?thesis by (simp add: update_invalid [OF False] False)
  qed
  show "\<exists>w' added. save m e None resp2 w2 = Inr w' \<and> trace w' = trace w2 @ added
            \<and> (\<forall>f err r. Called f err r \<in> set added \<longrightarrow> f = Noop)
            \<and> (\<forall>x. Uncaught (TypeError x) \<notin> set added)
            \<and> (\<not> fst (isValid m (self w2)) \<longrightarrow>
                 added = [Called Noop (Some (Error ''validation failed'')) (self w')])"
  proof (cases "fst (isValid m (self w2))")
    case True
    then show ?thesis using save_without_callback [of m e resp2 w2] by auto
  next
    case invalid: False
    show ?thesis
    proof (cases "isNew m (self w2)")
      case True
      show ?thesis by (simp add: save_new_invalid [OF True invalid] invalid)
    next
      case False
      show ?thesis by (simp add: save_persisted [OF False] update_invalid [OF invalid] invalid)
    qed
  qed
qed

theorem destroy_without_callback_throws_witness:
  "isNew users (self \<lparr>self = fresh, trace = []\<rparr>)
   \<and> destroy users example_json None no_content \<lparr>self = fresh, trace = []\<rparr> =
       Inl (TypeError ''fn is not a function'', \<lparr>self = fresh, trace = []\<rparr>)
   \<and> \<not> fst (isValid users (self \<lparr>self = nameless, trace = []\<rparr>))
   \<and> (\<exists>w'. save users example_json None ok \<lparr>self = nameless, trace = []\<rparr> = Inr w'
          \<and> trace w' = [Called Noop (Some (Error ''validation failed'')) (self w')])
   \<and> (\<exists>w'. update users example_json None ok \<lparr>self = nameless, trace = []\<rparr> = Inr w'
          \<and> trace w' = [Called Noop (Some (Error ''validation failed'')) (self w')])"
proof -
  have new: "isNew users (self \<lparr>self = fresh, trace = []\<rparr>)"
    by (simp add: fresh_facts)
  have invalid: "\<not> fst (isValid users (self \<lparr>self = nameless, trace = []\<rparr>))"
    by (simp add: isValid_eq validate_def users_def run_validator_def has_def nameless_def
        lookup_def error_def)
  show ?thesis
    using new invalid destroy_without_callback_throws [OF new, where e = example_json
      and resp = no_content and ?resp2.0 = ok
      and ?w2.0 = "\<lparr>self = nameless, trace = []\<rparr>" and ?resp3.0 = ok
      and ?w3.0 = "\<lparr>self = nameless, trace = []\<rparr>"]
    by auto
qed

end
